theory Spec2Isabelle
  imports Complex_Main
begin

section \<open>CollabConnect (script.js): whiteboard, mocked socket and file sharing\<close>

text \<open>
  The class \<open>CollabConnect\<close> keeps all of its state in the fields of one object and in the
  page (the canvas, the file list, the chat panel, the toast, the console). The model is
  that object as a record, and every method as a function that takes the state and
  returns the state after the call. No method modelled here contains \<open>throw\<close>, \<open>try\<close> or
  \<open>await\<close>, so every one of them returns normally and a function to the state is all
  there is to say about a call.

  Numbers of the script are IEEE doubles; coordinates, brush sizes and file ids are
  modelled as \<open>real\<close>. The only arithmetic on them is the offset subtraction of the
  handlers and the factor 3 of the eraser width, and no property below depends on
  rounding.
\<close>

subsection \<open>The 2D rendering context and the canvas bitmap\<close>

type_synonym point = "real \<times> real"

text \<open>
  \<open>globalCompositeOperation\<close> is a string property; the script assigns the two values
  \<open>'destination-out'\<close> and \<open>'source-over'\<close> only, the second being the context's default.
\<close>

datatype composite = SourceOver | DestinationOut

text \<open>
  The fields of the context that the script reads or writes: the current default path (a
  list of subpaths, each a list of points) and three drawing attributes. \<open>lineCap\<close> and
  \<open>lineJoin\<close> are set once to \<open>'round'\<close> by \<open>initializeWhiteboard\<close> and never again, so
  they are constants of the model.
\<close>

record context2d =
  path :: "point list list"
  globalCompositeOperation :: composite
  strokeStyle :: string
  lineWidth :: real

text \<open>
  The bitmap is represented by what has been painted on it since it was last blank: one
  entry per effective \<open>stroke()\<close> call, holding the path that was stroked and the
  attributes it was stroked with.
\<close>

record paint =
  paint_path :: "point list list"
  paint_composite :: composite
  paint_style :: string
  paint_width :: real

definition beginPath :: "context2d \<Rightarrow> context2d" where
  "beginPath c = c\<lparr>path := []\<rparr>"

definition moveTo :: "real \<Rightarrow> real \<Rightarrow> context2d \<Rightarrow> context2d" where
  "moveTo x y c = c\<lparr>path := path c @ [[(x, y)]]\<rparr>"

text \<open>
  \<open>lineTo\<close> on a path with no subpath behaves as \<open>moveTo\<close>; otherwise it extends the
  last subpath.
\<close>

definition lineTo :: "real \<Rightarrow> real \<Rightarrow> context2d \<Rightarrow> context2d" where
  "lineTo x y c =
     (if path c = [] then c\<lparr>path := [[(x, y)]]\<rparr>
      else c\<lparr>path := butlast (path c) @ [last (path c) @ [(x, y)]]\<rparr>)"

text \<open>Assigning \<open>lineWidth\<close> a value that is not positive leaves it as it was.\<close>

definition set_lineWidth :: "real \<Rightarrow> context2d \<Rightarrow> context2d" where
  "set_lineWidth w c = (if 0 < w then c\<lparr>lineWidth := w\<rparr> else c)"

subsection \<open>Events on the socket\<close>

text \<open>The object literal that \<open>draw\<close> emits with \<open>'whiteboard-draw'\<close>.\<close>

record draw_data =
  draw_x :: real
  draw_y :: real
  draw_tool :: string
  draw_color :: string
  draw_size :: real
  draw_isDrawing :: bool

text \<open>
  \<open>fileData\<close> of \<open>handleFileUpload\<close>. The uploader is \<open>this.displayName\<close>, which is
  \<open>null\<close> until a meeting is joined.
\<close>

record file_data =
  fd_id :: real
  fd_name :: string
  fd_size :: nat
  fd_type :: string
  fd_url :: string
  fd_uploader :: "string option"

text \<open>\<open>messageData\<close> of \<open>sendMessage\<close>.\<close>

record chat_message =
  msg_id :: int
  msg_sender :: "string option"
  msg_text :: string
  msg_timestamp :: int
  msg_isOwn :: bool

text \<open>The object literal that \<open>joinMeeting\<close> emits with \<open>'join-room'\<close>.\<close>

record join_data =
  join_roomId :: "string option"
  join_displayName :: "string option"

text \<open>
  \<open>socket.emit\<close> has five call sites. Each constructor is the event name and the data of
  one of them: \<open>'join-room'\<close> (\<open>joinMeeting\<close>), \<open>'chat-message'\<close> (\<open>sendMessage\<close>),
  \<open>'whiteboard-draw'\<close> (\<open>draw\<close>), \<open>'whiteboard-clear'\<close> with no data (\<open>clearWhiteboard\<close>)
  and \<open>'file-share'\<close> (\<open>handleFileUpload\<close>).
\<close>

datatype message =
  JoinRoom join_data
| ChatMessage chat_message
| WhiteboardDraw draw_data
| WhiteboardClear
| FileShare file_data

text \<open>
  What the script writes to the console: \<open>Socket emit: <event>\<close> with the data, in
  \<open>emit\<close>, and \<open>Joined room:\<close> with the data, in the handler.
\<close>

datatype console_entry = SocketEmit message | JoinedRoom join_data

subsection \<open>The application object\<close>

text \<open>
  The fields of the constructor that the modelled methods use, the context \<open>this.ctx\<close>,
  and the parts of the page they write: the canvas bitmap (\<open>surface\<close>), the children of
  \<open>#chatMessages\<close> and of \<open>#fileList\<close>, the toasts shown (message and type, oldest
  first) and the console. \<open>this.socket\<close> is assigned once, by \<open>simulateBackend\<close> during
  construction, and is never \<open>null\<close> when a handler runs; it is the function
  \<open>socket_emit\<close> below. The slider hands the brush size over as a numeric string,
  which \<open>lineWidth\<close> and the product with 3 convert to its number; the field holds
  that number.
\<close>

record app =
  isDrawing :: bool
  currentTool :: string
  currentColor :: string
  currentBrushSize :: real
  displayName :: "string option"
  sharedFiles :: "real \<rightharpoonup> file_data"
  ctx :: context2d
  surface :: "paint list"
  chatMessages :: "chat_message list"
  fileList :: "file_data list"
  toasts :: "(string \<times> string) list"
  console :: "console_entry list"

text \<open>
  The object after \<open>new CollabConnect()\<close>: the constructor's field values, a fresh
  context with the defaults of the canvas API, a blank canvas and an empty page.
\<close>

definition CollabConnect :: app where
  "CollabConnect =
     \<lparr>isDrawing = False, currentTool = ''pen'', currentColor = ''#000000'',
      currentBrushSize = 3, displayName = None, sharedFiles = Map.empty,
      ctx = \<lparr>path = [], globalCompositeOperation = SourceOver,
             strokeStyle = ''#000000'', lineWidth = 1\<rparr>,
      surface = [], chatMessages = [], fileList = [], toasts = [], console = []\<rparr>"

text \<open>
  \<open>showToast\<close> overwrites the toast element; the timer that hides it three seconds later
  is not modelled.
\<close>

definition showToast :: "string \<Rightarrow> string \<Rightarrow> app \<Rightarrow> app" where
  "showToast message type s = s\<lparr>toasts := toasts s @ [(message, type)]\<rparr>"

definition addChatMessage :: "chat_message \<Rightarrow> app \<Rightarrow> app" where
  "addChatMessage messageData s = s\<lparr>chatMessages := chatMessages s @ [messageData]\<rparr>"

definition addFileToList :: "file_data \<Rightarrow> app \<Rightarrow> app" where
  "addFileToList fileData s =
     s\<lparr>fileList := fileList s @ [fileData],
       sharedFiles := (sharedFiles s)(fd_id fileData \<mapsto> fileData)\<rparr>"

text \<open>
  The \<open>switch\<close> of \<open>handleSocketMessage\<close>. The case \<open>'whiteboard-draw'\<close> holds a comment
  and \<open>break\<close>; \<open>'whiteboard-clear'\<close> has no case at all.
\<close>

fun handleSocketMessage :: "message \<Rightarrow> app \<Rightarrow> app" where
  "handleSocketMessage (JoinRoom d) s = s\<lparr>console := console s @ [JoinedRoom d]\<rparr>"
| "handleSocketMessage (ChatMessage d) s =
     (if msg_sender d \<noteq> displayName s then addChatMessage d s else s)"
| "handleSocketMessage (WhiteboardDraw d) s = s"
| "handleSocketMessage WhiteboardClear s = s"
| "handleSocketMessage (FileShare d) s =
     (if fd_uploader d \<noteq> displayName s then addFileToList d s else s)"

text \<open>\<open>this.socket.emit\<close>, as \<open>simulateBackend\<close> defines it: log, then call the handler.\<close>

definition socket_emit :: "message \<Rightarrow> app \<Rightarrow> app" where
  "socket_emit m s = handleSocketMessage m (s\<lparr>console := console s @ [SocketEmit m]\<rparr>)"

subsection \<open>The whiteboard\<close>

text \<open>
  A mouse event, reduced to what the handlers read: \<open>clientX\<close>, \<open>clientY\<close> and the
  \<open>left\<close> and \<open>top\<close> of the target's bounding rectangle.
\<close>

record mouse_event =
  clientX :: real
  clientY :: real
  rect_left :: real
  rect_top :: real

text \<open>
  \<open>ctx.stroke()\<close> strokes every subpath of the current path, all of it and not only
  the segment added last; a subpath of a single point has no line and paints nothing.
\<close>

definition stroke :: "app \<Rightarrow> app" where
  "stroke s =
     (if list_ex (\<lambda>sp. 2 \<le> length sp) (path (ctx s))
      then s\<lparr>surface := surface s @
             [\<lparr>paint_path = path (ctx s),
               paint_composite = globalCompositeOperation (ctx s),
               paint_style = strokeStyle (ctx s),
               paint_width = lineWidth (ctx s)\<rparr>]\<rparr>
      else s)"

text \<open>
  \<open>ctx.clearRect(0, 0, canvas.width, canvas.height)\<close>: the whole bitmap becomes blank.
  The current path is not part of the bitmap and stays.
\<close>

definition clearRect :: "app \<Rightarrow> app" where
  "clearRect s = s\<lparr>surface := []\<rparr>"

definition startDrawing :: "mouse_event \<Rightarrow> app \<Rightarrow> app" where
  "startDrawing e s =
     (let x = clientX e - rect_left e;
          y = clientY e - rect_top e;
          c = moveTo x y (beginPath (ctx s))
      in s\<lparr>isDrawing := True,
           ctx := (if currentTool s = ''eraser''
                   then set_lineWidth (currentBrushSize s * 3)
                          (c\<lparr>globalCompositeOperation := DestinationOut\<rparr>)
                   else set_lineWidth (currentBrushSize s)
                          (c\<lparr>globalCompositeOperation := SourceOver,
                             strokeStyle := currentColor s\<rparr>))\<rparr>)"

definition draw :: "mouse_event \<Rightarrow> app \<Rightarrow> app" where
  "draw e s =
     (if \<not> isDrawing s then s
      else
        let x = clientX e - rect_left e;
            y = clientY e - rect_top e
        in socket_emit
             (WhiteboardDraw
                \<lparr>draw_x = x, draw_y = y, draw_tool = currentTool s,
                 draw_color = currentColor s, draw_size = currentBrushSize s,
                 draw_isDrawing = True\<rparr>)
             (stroke (s\<lparr>ctx := lineTo x y (ctx s)\<rparr>)))"

definition stopDrawing :: "app \<Rightarrow> app" where
  "stopDrawing s =
     (if \<not> isDrawing s then s
      else s\<lparr>isDrawing := False, ctx := beginPath (ctx s)\<rparr>)"

definition clearWhiteboard :: "app \<Rightarrow> app" where
  "clearWhiteboard s =
     showToast ''Whiteboard cleared'' ''info'' (socket_emit WhiteboardClear (clearRect s))"

subsection \<open>The listeners of the whiteboard\<close>

text \<open>
  \<open>setupWhiteboardEvents\<close> registers its listeners as arrow functions; they are named
  here after the element and the event. A click on a \<open>.tool-btn\<close> reads the \<open>id\<close> of
  the event target and the \<open>data-tool\<close> of the button: the button with the id
  \<open>clearBoard\<close> clears the board, every other one selects its tool. None of the three
  listeners below looks at \<open>isDrawing\<close> or touches the context.
\<close>

record tool_click =
  target_id :: string
  dataset_tool :: string

definition toolButton_click :: "tool_click \<Rightarrow> app \<Rightarrow> app" where
  "toolButton_click e s =
     (if target_id e = ''clearBoard'' then clearWhiteboard s
      else s\<lparr>currentTool := dataset_tool e\<rparr>)"

definition colorPicker_change :: "string \<Rightarrow> app \<Rightarrow> app" where
  "colorPicker_change v s = s\<lparr>currentColor := v\<rparr>"

definition brushSize_input :: "real \<Rightarrow> app \<Rightarrow> app" where
  "brushSize_input v s = s\<lparr>currentBrushSize := v\<rparr>"

text \<open>
  The events that \<open>setupWhiteboardEvents\<close> listens to, and the listener each one runs.
  The touch listeners dispatch a \<open>mousedown\<close>, \<open>mousemove\<close> or \<open>mouseup\<close> with the
  coordinates of the touch, so they are the mouse events here.
\<close>

datatype whiteboard_event =
  Mousedown mouse_event
| Mousemove mouse_event
| Mouseup
| Mouseout
| ToolButtonClick tool_click
| ColorPickerChange string
| BrushSizeInput real

fun dispatch :: "whiteboard_event \<Rightarrow> app \<Rightarrow> app" where
  "dispatch (Mousedown e) s = startDrawing e s"
| "dispatch (Mousemove e) s = draw e s"
| "dispatch Mouseup s = stopDrawing s"
| "dispatch Mouseout s = stopDrawing s"
| "dispatch (ToolButtonClick e) s = toolButton_click e s"
| "dispatch (ColorPickerChange v) s = colorPicker_change v s"
| "dispatch (BrushSizeInput v) s = brushSize_input v s"

text \<open>The browser runs the listeners one event after the other.\<close>

definition run :: "whiteboard_event list \<Rightarrow> app \<Rightarrow> app" where
  "run evs s = fold dispatch evs s"



fun event_points :: "whiteboard_event \<Rightarrow> point list" where
  "event_points (Mousedown e) = [(clientX e - rect_left e, clientY e - rect_top e)]"
| "event_points (Mousemove e) = [(clientX e - rect_left e, clientY e - rect_top e)]"
| "event_points ev = []"

subsection \<open>File sharing\<close>

text \<open>
  One entry of the \<open>FileList\<close> handed to \<open>handleFileUpload\<close>: the \<open>name\<close>, \<open>size\<close> (in
  bytes) and \<open>type\<close> of the file, together with the two values the environment produces
  for it inside the loop body: \<open>Date.now() + Math.random()\<close> and
  \<open>URL.createObjectURL(file)\<close>.
\<close>

record upload =
  file_name :: string
  file_size :: nat
  file_type :: string
  file_now_random :: real
  file_object_url :: string

definition fileData_of :: "upload \<Rightarrow> app \<Rightarrow> file_data" where
  "fileData_of file s =
     \<lparr>fd_id = file_now_random file, fd_name = file_name file, fd_size = file_size file,
      fd_type = file_type file, fd_url = file_object_url file,
      fd_uploader = displayName s\<rparr>"

text \<open>The body of the \<open>forEach\<close> callback; its \<open>return\<close> ends this file's turn only.\<close>

definition handleFile :: "upload \<Rightarrow> app \<Rightarrow> app" where
  "handleFile file s =
     (if file_size file > 10 * 1024 * 1024
      then showToast ''File too large (max 10MB)'' ''error'' s
      else
        let fileData = fileData_of file s
        in showToast (''File '' @ [CHR 0x22] @ file_name file @ [CHR 0x22] @ '' uploaded'')
             ''success''
             (socket_emit (FileShare fileData) (addFileToList fileData s)))"

definition handleFileUpload :: "upload list \<Rightarrow> app \<Rightarrow> app" where
  "handleFileUpload files s = fold handleFile files s"

subsection \<open>Concrete inputs\<close>

text \<open>
  A mouse event at the point \<open>(x, y)\<close> of a canvas whose bounding rectangle has its top
  left corner at \<open>(10, 20)\<close> of the viewport.
\<close>

definition mouse_at :: "real \<Rightarrow> real \<Rightarrow> mouse_event" where
  "mouse_at x y = \<lparr>clientX = x + 10, clientY = y + 20, rect_left = 10, rect_top = 20\<rparr>"





text \<open>Data of another participant, as a real backend would deliver it.\<close>

definition remote_draw :: draw_data where
  "remote_draw =
     \<lparr>draw_x = 5, draw_y = 5, draw_tool = ''pen'', draw_color = ''#ff0000'',
      draw_size = 3, draw_isDrawing = True\<rparr>"

definition remote_file :: file_data where
  "remote_file =
     \<lparr>fd_id = 17, fd_name = ''notes.txt'', fd_size = 120, fd_type = ''text/plain'',
      fd_url = ''blob:notes'', fd_uploader = Some ''Alice Johnson''\<rparr>"

definition remote_chat :: chat_message where
  "remote_chat =
     \<lparr>msg_id = 1, msg_sender = Some ''Bob Smith'', msg_text = ''hello'',
      msg_timestamp = 1, msg_isOwn = False\<rparr>"

text \<open>Two files on either side of the limit: one byte above it, and exactly at it.\<close>

definition too_large :: upload where
  "too_large =
     \<lparr>file_name = ''movie.mp4'', file_size = 10485761, file_type = ''video/mp4'',
      file_now_random = 1001, file_object_url = ''blob:movie''\<rparr>"

definition at_limit :: upload where
  "at_limit =
     \<lparr>file_name = ''slides.pdf'', file_size = 10485760, file_type = ''application/pdf'',
      file_now_random = 1002, file_object_url = ''blob:slides''\<rparr>"

section \<open>Properties\<close>

subsection \<open>The context operations\<close>

lemma set_lineWidth_path: "path (set_lineWidth w c) = path c"
  by (simp add: set_lineWidth_def)



lemma lineTo_points:
  "length (concat (path (lineTo x y c))) = Suc (length (concat (path c)))"
proof (cases "path c = []")
  case True
  then show ?thesis by (simp add: lineTo_def)
next
  case False
  then have "butlast (path c) @ [last (path c)] = path c"
    by simp
  then have "concat (path c) = concat (butlast (path c)) @ last (path c)"
    by (metis concat_append concat.simps append_Nil2)
  with False show ?thesis by (simp add: lineTo_def)
qed

lemma lineTo_last: "last (last (path (lineTo x y c))) = (x, y)"
  by (simp add: lineTo_def)

lemma stroke_ctx: "ctx (stroke s) = ctx s"
  by (simp add: stroke_def)

subsection \<open>The socket\<close>

lemma socket_emit_WhiteboardDraw:
  "socket_emit (WhiteboardDraw d) s =
     s\<lparr>console := console s @ [SocketEmit (WhiteboardDraw d)]\<rparr>"
  by (simp add: socket_emit_def)

lemma socket_emit_WhiteboardClear:
  "socket_emit WhiteboardClear s = s\<lparr>console := console s @ [SocketEmit WhiteboardClear]\<rparr>"
  by (simp add: socket_emit_def)

subsection \<open>The handlers of the whiteboard\<close>


lemma startDrawing_console: "console (startDrawing e s) = console s"
  by (simp add: startDrawing_def Let_def)

lemma startDrawing_isDrawing: "isDrawing (startDrawing e s)"
  by (simp add: startDrawing_def Let_def)

lemma startDrawing_path:
  "path (ctx (startDrawing e s)) = [[(clientX e - rect_left e, clientY e - rect_top e)]]"
  by (simp add: startDrawing_def Let_def set_lineWidth_path moveTo_def beginPath_def)




lemma draw_idle: "\<not> isDrawing s \<Longrightarrow> draw e s = s"
  by (simp add: draw_def)

lemma draw_active:
  "isDrawing s \<Longrightarrow>
   draw e s =
     (stroke (s\<lparr>ctx := lineTo (clientX e - rect_left e) (clientY e - rect_top e) (ctx s)\<rparr>))
       \<lparr>console := console s @
          [SocketEmit (WhiteboardDraw
             \<lparr>draw_x = clientX e - rect_left e, draw_y = clientY e - rect_top e,
              draw_tool = currentTool s, draw_color = currentColor s,
              draw_size = currentBrushSize s, draw_isDrawing = True\<rparr>)]\<rparr>"
  by (simp add: draw_def Let_def socket_emit_WhiteboardDraw stroke_def)




text \<open>The state of a new application after a pointer-down at (0, 0) and a move to (5, 5).\<close>

lemma first_segment_state:
  "draw (mouse_at 5 5) (startDrawing (mouse_at 0 0) CollabConnect) =
     \<lparr>isDrawing = True, currentTool = ''pen'', currentColor = ''#000000'',
      currentBrushSize = 3, displayName = None, sharedFiles = Map.empty,
      ctx = \<lparr>path = [[(0, 0), (5, 5)]], globalCompositeOperation = SourceOver,
             strokeStyle = ''#000000'', lineWidth = 3\<rparr>,
      surface = [\<lparr>paint_path = [[(0, 0), (5, 5)]], paint_composite = SourceOver,
                  paint_style = ''#000000'', paint_width = 3\<rparr>],
      chatMessages = [], fileList = [], toasts = [],
      console = [SocketEmit (WhiteboardDraw
                   \<lparr>draw_x = 5, draw_y = 5, draw_tool = ''pen'', draw_color = ''#000000'',
                    draw_size = 3, draw_isDrawing = True\<rparr>)]\<rparr>"
  by (simp add: draw_def startDrawing_def Let_def CollabConnect_def mouse_at_def
      socket_emit_def stroke_def lineTo_def moveTo_def beginPath_def set_lineWidth_def)

lemma sealed_state_idle:
  "\<not> isDrawing (stopDrawing (draw (mouse_at 5 5) (startDrawing (mouse_at 0 0) CollabConnect)))"
  by (simp add: stopDrawing_def)

lemma clearWhiteboard_surface: "surface (clearWhiteboard s) = []"
  by (simp add: clearWhiteboard_def showToast_def socket_emit_WhiteboardClear clearRect_def)

lemma clearWhiteboard_ctx: "ctx (clearWhiteboard s) = ctx s"
  by (simp add: clearWhiteboard_def showToast_def socket_emit_WhiteboardClear clearRect_def)

lemma clearWhiteboard_isDrawing: "isDrawing (clearWhiteboard s) = isDrawing s"
  by (simp add: clearWhiteboard_def showToast_def socket_emit_WhiteboardClear clearRect_def)



text \<open>A clear that arrives between two gestures finds the path empty and leaves it so.\<close>

lemma clear_after_seal:
  "isDrawing s \<Longrightarrow>
   surface (clearWhiteboard (stopDrawing s)) = [] \<and>
   path (ctx (clearWhiteboard (stopDrawing s))) = [] \<and>
   \<not> isDrawing (clearWhiteboard (stopDrawing s))"
  by (simp add: clearWhiteboard_surface clearWhiteboard_ctx clearWhiteboard_isDrawing
      stopDrawing_def beginPath_def)

subsection \<open>Sequences of events\<close>

lemma run_Nil: "run [] s = s"
  by (simp add: run_def)

lemma run_Cons: "run (ev # evs) s = run evs (dispatch ev s)"
  by (simp add: run_def)


lemma toolButton_click_ctx: "ctx (toolButton_click e u) = ctx u"
  by (simp add: toolButton_click_def clearWhiteboard_ctx)






text \<open>
  Points: a path holds only points of the events that built it, and a paint holds only
  points of the path it stroked.
\<close>

lemma lineTo_point_set:
  "set (concat (path (lineTo x y c))) = insert (x, y) (set (concat (path c)))"
proof (cases "path c = []")
  case True
  then show ?thesis by (simp add: lineTo_def)
next
  case False
  then have "butlast (path c) @ [last (path c)] = path c"
    by simp
  then have "concat (path c) = concat (butlast (path c)) @ last (path c)"
    by (metis concat_append concat.simps append_Nil2)
  with False show ?thesis by (auto simp add: lineTo_def)
qed

lemma draw_active_ctx:
  "isDrawing u \<Longrightarrow>
   ctx (draw e u) = lineTo (clientX e - rect_left e) (clientY e - rect_top e) (ctx u)"
  by (simp add: draw_active stroke_ctx)

lemma draw_path_points:
  "set (concat (path (ctx (draw e u)))) \<subseteq>
     insert (clientX e - rect_left e, clientY e - rect_top e) (set (concat (path (ctx u))))"
proof (cases "isDrawing u")
  case True
  then show ?thesis
    by (simp only: draw_active_ctx lineTo_point_set subset_refl)
next
  case False
  then have "draw e u = u" by (rule draw_idle)
  then show ?thesis by (simp only: subset_insertI)
qed

lemma dispatch_path_points:
  "set (concat (path (ctx (dispatch ev u)))) \<subseteq>
     set (concat (path (ctx u))) \<union> set (event_points ev)"
proof (cases ev)
  case (Mousedown e)
  then show ?thesis by (simp add: startDrawing_path)
next
  case (Mousemove e)
  have "set (event_points ev) = {(clientX e - rect_left e, clientY e - rect_top e)}"
    using Mousemove by simp
  with draw_path_points [of e u] Mousemove show ?thesis
    by (simp del: set_concat)
next
  case Mouseup
  then show ?thesis by (simp add: stopDrawing_def beginPath_def)
next
  case Mouseout
  then show ?thesis by (simp add: stopDrawing_def beginPath_def)
next
  case (ToolButtonClick e)
  then show ?thesis by (simp add: toolButton_click_ctx)
next
  case (ColorPickerChange v)
  then show ?thesis by (simp add: colorPicker_change_def)
next
  case (BrushSizeInput v)
  then show ?thesis by (simp add: brushSize_input_def)
qed


lemma run_path_points:
  "set (concat (path (ctx (run evs u)))) \<subseteq>
     set (concat (path (ctx u))) \<union> set (concat (map event_points evs))"
proof (induction evs arbitrary: u)
  case Nil
  show ?case by (simp add: run_Nil)
next
  case (Cons ev evs)
  from Cons.IH [of "dispatch ev u"] dispatch_path_points [of ev u]
  show ?case by (simp add: run_Cons del: set_concat) blast
qed











subsection \<open>File upload\<close>

lemma handleFile_reject:
  "file_size f > 10 * 1024 * 1024 \<Longrightarrow>
   handleFile f s = s\<lparr>toasts := toasts s @ [(''File too large (max 10MB)'', ''error'')]\<rparr>"
  by (simp add: handleFile_def showToast_def)

text \<open>
  An accepted file: the handler that \<open>emit\<close> calls compares the uploader of the data
  with \<open>this.displayName\<close>, which is where the uploader was read from a moment before,
  so it adds nothing a second time.
\<close>

lemma handleFile_accept:
  "file_size f \<le> 10 * 1024 * 1024 \<Longrightarrow>
   handleFile f s =
     s\<lparr>fileList := fileList s @ [fileData_of f s],
       sharedFiles := (sharedFiles s)(file_now_random f \<mapsto> fileData_of f s),
       console := console s @ [SocketEmit (FileShare (fileData_of f s))],
       toasts := toasts s @
         [(''File '' @ [CHR 0x22] @ file_name f @ [CHR 0x22] @ '' uploaded'', ''success'')]\<rparr>"
  by (simp add: handleFile_def showToast_def socket_emit_def addFileToList_def Let_def
      fileData_of_def)

lemma handleFile_displayName: "displayName (handleFile f s) = displayName s"
  by (cases "file_size f \<le> 10 * 1024 * 1024")
     (simp_all add: handleFile_accept handleFile_reject)

lemma fileData_of_handleFile: "fileData_of g (handleFile f s) = fileData_of g s"
  by (simp add: fileData_of_def handleFile_displayName)

lemma handleFileUpload_Nil: "handleFileUpload [] s = s"
  by (simp add: handleFileUpload_def)

lemma handleFileUpload_Cons:
  "handleFileUpload (f # fs) s = handleFileUpload fs (handleFile f s)"
  by (simp add: handleFileUpload_def)

lemma handleFileUpload_fileList:
  "fileList (handleFileUpload fs s) =
     fileList s @ map (\<lambda>g. fileData_of g s)
       (filter (\<lambda>g. file_size g \<le> 10 * 1024 * 1024) fs)"
proof (induction fs arbitrary: s)
  case Nil
  show ?case by (simp add: handleFileUpload_Nil)
next
  case (Cons f fs)
  have d: "\<And>g. fileData_of g (handleFile f s) = fileData_of g s"
    by (rule fileData_of_handleFile)
  show ?case
  proof (cases "file_size f \<le> 10 * 1024 * 1024")
    case True
    then show ?thesis
      by (simp add: handleFileUpload_Cons Cons.IH d) (simp add: handleFile_accept)
  next
    case False
    then show ?thesis
      by (simp add: handleFileUpload_Cons Cons.IH d) (simp add: handleFile_reject)
  qed
qed

lemma handleFileUpload_console:
  "console (handleFileUpload fs s) =
     console s @ map (\<lambda>g. SocketEmit (FileShare (fileData_of g s)))
       (filter (\<lambda>g. file_size g \<le> 10 * 1024 * 1024) fs)"
proof (induction fs arbitrary: s)
  case Nil
  show ?case by (simp add: handleFileUpload_Nil)
next
  case (Cons f fs)
  have d: "\<And>g. fileData_of g (handleFile f s) = fileData_of g s"
    by (rule fileData_of_handleFile)
  show ?case
  proof (cases "file_size f \<le> 10 * 1024 * 1024")
    case True
    then show ?thesis
      by (simp add: handleFileUpload_Cons Cons.IH d) (simp add: handleFile_accept)
  next
    case False
    then show ?thesis
      by (simp add: handleFileUpload_Cons Cons.IH d) (simp add: handleFile_reject)
  qed
qed

lemma handleFileUpload_sharedFiles:
  "sharedFiles (handleFileUpload fs s) =
     fold (\<lambda>g m. m(file_now_random g \<mapsto> fileData_of g s))
       (filter (\<lambda>g. file_size g \<le> 10 * 1024 * 1024) fs) (sharedFiles s)"
proof (induction fs arbitrary: s)
  case Nil
  show ?case by (simp add: handleFileUpload_Nil)
next
  case (Cons f fs)
  have d: "\<And>g. fileData_of g (handleFile f s) = fileData_of g s"
    by (rule fileData_of_handleFile)
  show ?case
  proof (cases "file_size f \<le> 10 * 1024 * 1024")
    case True
    then show ?thesis
      by (simp add: handleFileUpload_Cons Cons.IH d) (simp add: handleFile_accept)
  next
    case False
    then show ?thesis
      by (simp add: handleFileUpload_Cons Cons.IH d) (simp add: handleFile_reject)
  qed
qed

lemma handleFileUpload_toasts:
  "toasts (handleFileUpload fs s) =
     toasts s @
       map (\<lambda>g. if file_size g > 10 * 1024 * 1024
                 then (''File too large (max 10MB)'', ''error'')
                 else (''File '' @ [CHR 0x22] @ file_name g @ [CHR 0x22] @ '' uploaded'',
                       ''success'')) fs"
proof (induction fs arbitrary: s)
  case Nil
  show ?case by (simp add: handleFileUpload_Nil)
next
  case (Cons f fs)
  show ?case
  proof (cases "file_size f \<le> 10 * 1024 * 1024")
    case True
    then show ?thesis
      by (simp add: handleFileUpload_Cons Cons.IH) (simp add: handleFile_accept)
  next
    case False
    then show ?thesis
      by (simp add: handleFileUpload_Cons Cons.IH) (simp add: handleFile_reject)
  qed
qed

section \<open>The claims\<close>

subsection \<open>C2: pointer-down\<close>

text \<open>
  C2, as the code has it. \<open>startDrawing\<close> has no guard on \<open>isDrawing\<close>: every
  pointer-down, in the idle state and during a gesture alike, leaves the state machine
  active and the context with a path that holds the pointer position and nothing else,
  with the compositing of the current tool (\<open>destination-out\<close> for the eraser,
  \<open>source-over\<close> otherwise), with the current colour as stroke colour unless the tool
  is the eraser, which keeps the colour the context had, and with the brush size as
  line width, three times it for the eraser; a width that is not positive is not taken
  and the context keeps the width it had. It paints nothing and emits nothing. The
  result is the same whether or not a gesture was in progress and whatever path it had
  built: a pointer-down during a gesture is not ignored, it drops the path built so far
  and starts again, and there is still one path in progress only.
\<close>

theorem startDrawing_always_restarts:
  "isDrawing (startDrawing e s) \<and>
   ctx (startDrawing e s) =
     (if currentTool s = ''eraser''
      then \<lparr>path = [[(clientX e - rect_left e, clientY e - rect_top e)]],
            globalCompositeOperation = DestinationOut,
            strokeStyle = strokeStyle (ctx s),
            lineWidth = (if 0 < currentBrushSize s * 3 then currentBrushSize s * 3
                         else lineWidth (ctx s))\<rparr>
      else \<lparr>path = [[(clientX e - rect_left e, clientY e - rect_top e)]],
            globalCompositeOperation = SourceOver,
            strokeStyle = currentColor s,
            lineWidth = (if 0 < currentBrushSize s then currentBrushSize s
                         else lineWidth (ctx s))\<rparr>) \<and>
   surface (startDrawing e s) = surface s \<and>
   console (startDrawing e s) = console s \<and>
   startDrawing e (s\<lparr>isDrawing := b, ctx := (ctx s)\<lparr>path := q\<rparr>\<rparr>) = startDrawing e s"
  by (simp add: startDrawing_def Let_def moveTo_def beginPath_def set_lineWidth_def)

text \<open>
  The same at a pointer-down at (9, 9) during the gesture from (0, 0) to (5, 5), and at
  a pointer-down after the brush size was set to 0, which keeps the width 1 of a new
  context.
\<close>

theorem startDrawing_always_restarts_witness:
  "isDrawing (draw (mouse_at 5 5) (startDrawing (mouse_at 0 0) CollabConnect)) \<and>
   isDrawing (startDrawing (mouse_at 9 9)
     (draw (mouse_at 5 5) (startDrawing (mouse_at 0 0) CollabConnect))) \<and>
   ctx (startDrawing (mouse_at 9 9)
     (draw (mouse_at 5 5) (startDrawing (mouse_at 0 0) CollabConnect))) =
     \<lparr>path = [[(9, 9)]], globalCompositeOperation = SourceOver,
      strokeStyle = ''#000000'', lineWidth = 3\<rparr> \<and>
   length (surface (startDrawing (mouse_at 9 9)
     (draw (mouse_at 5 5) (startDrawing (mouse_at 0 0) CollabConnect)))) = 1 \<and>
   lineWidth (ctx (startDrawing (mouse_at 9 9) (brushSize_input 0 CollabConnect))) = 1"
  using startDrawing_always_restarts
    [where e = "mouse_at 9 9"
       and s = "draw (mouse_at 5 5) (startDrawing (mouse_at 0 0) CollabConnect)",
     THEN conjunct1]
    startDrawing_always_restarts
    [where e = "mouse_at 9 9"
       and s = "draw (mouse_at 5 5) (startDrawing (mouse_at 0 0) CollabConnect)",
     THEN conjunct2, THEN conjunct1]
    startDrawing_always_restarts
    [where e = "mouse_at 9 9"
       and s = "draw (mouse_at 5 5) (startDrawing (mouse_at 0 0) CollabConnect)",
     THEN conjunct2, THEN conjunct2, THEN conjunct1]
    startDrawing_always_restarts
    [where e = "mouse_at 9 9" and s = "brushSize_input 0 CollabConnect",
     THEN conjunct2, THEN conjunct1]
  by (simp add: first_segment_state)
     (simp add: mouse_at_def brushSize_input_def CollabConnect_def)


text \<open>
  C2 as the specification states it fails: after a pointer-down at (0, 0) and a move to
  (5, 5) the state is active with the path (0, 0), (5, 5); a pointer-down at (9, 9) then
  replaces that path by the single point (9, 9), so the state is not what it was.
\<close>

theorem pointer_down_while_active_counterexample:
  "isDrawing (draw (mouse_at 5 5) (startDrawing (mouse_at 0 0) CollabConnect)) \<and>
   path (ctx (draw (mouse_at 5 5) (startDrawing (mouse_at 0 0) CollabConnect))) =
     [[(0, 0), (5, 5)]] \<and>
   path (ctx (startDrawing (mouse_at 9 9)
     (draw (mouse_at 5 5) (startDrawing (mouse_at 0 0) CollabConnect)))) = [[(9, 9)]] \<and>
   startDrawing (mouse_at 9 9)
     (draw (mouse_at 5 5) (startDrawing (mouse_at 0 0) CollabConnect)) \<noteq>
   draw (mouse_at 5 5) (startDrawing (mouse_at 0 0) CollabConnect)"
proof -
  let ?active = "draw (mouse_at 5 5) (startDrawing (mouse_at 0 0) CollabConnect)"
  have before: "path (ctx ?active) = [[(0, 0), (5, 5)]]"
    by (simp add: first_segment_state)
  have after: "path (ctx (startDrawing (mouse_at 9 9) ?active)) = [[(9, 9)]]"
    by (simp add: startDrawing_path) (simp add: mouse_at_def)
  have "path (ctx (startDrawing (mouse_at 9 9) ?active)) \<noteq> path (ctx ?active)"
    unfolding before after by simp
  then have "startDrawing (mouse_at 9 9) ?active \<noteq> ?active"
    by auto
  moreover have "isDrawing ?active"
    by (simp add: first_segment_state)
  ultimately show ?thesis
    using before after by simp
qed

subsection \<open>C3: the eraser\<close>




subsection \<open>C4: clearing the board\<close>




subsection \<open>C5: a move after the stroke has ended\<close>

text \<open>
  C5, as the code has it. \<open>draw\<close> begins with \<open>if (!this.isDrawing) return;\<close>: a
  pointer-move that arrives when no stroke is active, in particular after the stroke was
  ended by \<open>stopDrawing\<close>, returns normally and changes nothing: no point, no paint, no
  event, no toast. It is a silent no-op, not an error.
\<close>

theorem draw_while_idle_is_ignored: "\<not> isDrawing s \<Longrightarrow> draw e s = s"
  by (simp add: draw_def)

text \<open>The same after a complete gesture: the canvas and the console stay as they were.\<close>

theorem draw_while_idle_is_ignored_witness:
  "\<not> isDrawing (stopDrawing (draw (mouse_at 5 5) (startDrawing (mouse_at 0 0) CollabConnect))) \<and>
   surface (draw (mouse_at 9 9)
     (stopDrawing (draw (mouse_at 5 5) (startDrawing (mouse_at 0 0) CollabConnect)))) =
     [\<lparr>paint_path = [[(0, 0), (5, 5)]], paint_composite = SourceOver,
       paint_style = ''#000000'', paint_width = 3\<rparr>] \<and>
   length (console (draw (mouse_at 9 9)
     (stopDrawing (draw (mouse_at 5 5) (startDrawing (mouse_at 0 0) CollabConnect))))) = 1"
  using draw_while_idle_is_ignored
    [of "stopDrawing (draw (mouse_at 5 5) (startDrawing (mouse_at 0 0) CollabConnect))"
        "mouse_at 9 9"]
  by (simp add: sealed_state_idle) (simp add: stopDrawing_def first_segment_state)

text \<open>
  C5 as the specification states it fails: extending the stroke that a pointer-up has
  ended returns the very state it was called in.
\<close>

theorem draw_after_seal_counterexample:
  "draw (mouse_at 9 9)
     (stopDrawing (draw (mouse_at 5 5) (startDrawing (mouse_at 0 0) CollabConnect))) =
   stopDrawing (draw (mouse_at 5 5) (startDrawing (mouse_at 0 0) CollabConnect))"
  by (simp add: draw_idle sealed_state_idle)

subsection \<open>C6: pointer-move\<close>

text \<open>
  C6, as the code has it. While a stroke is active, every pointer-move, whatever its
  magnitude, appends one point to the path, namely the pointer position, and emits one
  \<open>whiteboard-draw\<close> event with that position and the current tool, colour and size.
  The code has no threshold on the movement, so nothing bounds the number of points.
\<close>

theorem every_move_appends_a_point:
  "isDrawing s \<Longrightarrow>
   length (concat (path (ctx (draw e s)))) = Suc (length (concat (path (ctx s)))) \<and>
   last (last (path (ctx (draw e s)))) = (clientX e - rect_left e, clientY e - rect_top e) \<and>
   console (draw e s) =
     console s @
       [SocketEmit (WhiteboardDraw
          \<lparr>draw_x = clientX e - rect_left e, draw_y = clientY e - rect_top e,
           draw_tool = currentTool s, draw_color = currentColor s,
           draw_size = currentBrushSize s, draw_isDrawing = True\<rparr>)]"
  by (simp add: draw_active stroke_ctx lineTo_points lineTo_last)

text \<open>The same at a move that does not move: two points in the path, one event.\<close>

theorem every_move_appends_a_point_witness:
  "isDrawing (startDrawing (mouse_at 0 0) CollabConnect) \<and>
   length (concat (path (ctx (draw (mouse_at 0 0)
     (startDrawing (mouse_at 0 0) CollabConnect))))) = 2 \<and>
   length (console (draw (mouse_at 0 0) (startDrawing (mouse_at 0 0) CollabConnect))) = 1"
  using every_move_appends_a_point
    [of "startDrawing (mouse_at 0 0) CollabConnect" "mouse_at 0 0"]
  by (simp add: startDrawing_isDrawing startDrawing_path startDrawing_console)
     (simp add: CollabConnect_def)

text \<open>
  C6 as the specification states it fails: a move of magnitude zero, which is below any
  positive threshold, is not a no-op. After a pointer-down at (0, 0), a move to (0, 0)
  makes the path (0, 0), (0, 0) and emits an event.
\<close>

theorem zero_move_counterexample:
  "isDrawing (startDrawing (mouse_at 0 0) CollabConnect) \<and>
   path (ctx (startDrawing (mouse_at 0 0) CollabConnect)) = [[(0, 0)]] \<and>
   path (ctx (draw (mouse_at 0 0) (startDrawing (mouse_at 0 0) CollabConnect))) =
     [[(0, 0), (0, 0)]] \<and>
   console (startDrawing (mouse_at 0 0) CollabConnect) = [] \<and>
   console (draw (mouse_at 0 0) (startDrawing (mouse_at 0 0) CollabConnect)) =
     [SocketEmit (WhiteboardDraw
        \<lparr>draw_x = 0, draw_y = 0, draw_tool = ''pen'', draw_color = ''#000000'',
         draw_size = 3, draw_isDrawing = True\<rparr>)]"
  by (simp add: draw_def startDrawing_def Let_def CollabConnect_def mouse_at_def
      socket_emit_def stroke_def lineTo_def moveTo_def beginPath_def set_lineWidth_def)

subsection \<open>C7: a draw event that is received\<close>

text \<open>
  C7, evaluated on the code. The case \<open>'whiteboard-draw'\<close> of \<open>handleSocketMessage\<close>
  holds the comment \<open>Handle remote drawing\<close> and nothing else: a draw event that is
  received is discarded. The state after it, canvas included, is the state before it.
\<close>

theorem remote_draw_is_discarded: "handleSocketMessage (WhiteboardDraw d) s = s"
  by simp

text \<open>A red segment end sent by another participant leaves a new canvas blank.\<close>

theorem remote_draw_is_discarded_witness:
  "surface (handleSocketMessage (WhiteboardDraw remote_draw) CollabConnect) = [] \<and>
   path (ctx (handleSocketMessage (WhiteboardDraw remote_draw) CollabConnect)) = []"
  using remote_draw_is_discarded [of remote_draw CollabConnect]
  by (simp add: CollabConnect_def)

subsection \<open>C8: the mocked socket\<close>

text \<open>
  C8. Every \<open>socket.emit\<close> is one call of \<open>handleSocketMessage\<close> on the same object
  with the same event and data, made after the console line and before \<open>emit\<close>
  returns. What the handler does is therefore already in the state that \<open>emit\<close>
  returns: the console has the line of \<open>emit\<close> and then the line of the \<open>join-room\<close>
  case; a chat message of another sender is in the chat panel; a file of another
  uploader is in the file list and in \<open>sharedFiles\<close>.
\<close>

theorem emit_calls_own_handler:
  "socket_emit m s = handleSocketMessage m (s\<lparr>console := console s @ [SocketEmit m]\<rparr>) \<and>
   console (socket_emit (JoinRoom j) s) = console s @ [SocketEmit (JoinRoom j), JoinedRoom j] \<and>
   (msg_sender c \<noteq> displayName s \<longrightarrow>
      chatMessages (socket_emit (ChatMessage c) s) = chatMessages s @ [c]) \<and>
   (fd_uploader f \<noteq> displayName s \<longrightarrow>
      fileList (socket_emit (FileShare f) s) = fileList s @ [f] \<and>
      sharedFiles (socket_emit (FileShare f) s) (fd_id f) = Some f)"
  by (simp add: socket_emit_def addChatMessage_def addFileToList_def)

text \<open>A file and a chat message of other participants, emitted on a new application.\<close>

theorem emit_calls_own_handler_witness:
  "fd_uploader remote_file \<noteq> displayName CollabConnect \<and>
   msg_sender remote_chat \<noteq> displayName CollabConnect \<and>
   fileList (socket_emit (FileShare remote_file) CollabConnect) = [remote_file] \<and>
   sharedFiles (socket_emit (FileShare remote_file) CollabConnect) 17 = Some remote_file \<and>
   chatMessages (socket_emit (ChatMessage remote_chat) CollabConnect) = [remote_chat]"
proof -
  have u: "fd_uploader remote_file \<noteq> displayName CollabConnect"
    by (simp add: remote_file_def CollabConnect_def)
  have c: "msg_sender remote_chat \<noteq> displayName CollabConnect"
    by (simp add: remote_chat_def CollabConnect_def)
  have i: "fd_id remote_file = 17"
    by (simp add: remote_file_def)
  have e: "fileList CollabConnect = []" "chatMessages CollabConnect = []"
    by (simp_all add: CollabConnect_def)
  show ?thesis
    using u c i e
      emit_calls_own_handler
        [where s = CollabConnect and f = remote_file and c = remote_chat,
         THEN conjunct2, THEN conjunct2]
    by simp
qed

subsection \<open>C9: a gesture without a move\<close>

text \<open>
  C9. A pointer-down that is followed at once by a pointer-up, with no move between
  them, paints nothing on the canvas and emits nothing on the socket, whatever the
  state it starts from: the gesture ends in the idle state with an empty path, the same
  bitmap, the same console (hence no \<open>emit\<close>), the same toasts, files and chat.
\<close>

theorem tap_renders_and_transmits_nothing:
  "surface (stopDrawing (startDrawing e s)) = surface s \<and>
   console (stopDrawing (startDrawing e s)) = console s \<and>
   toasts (stopDrawing (startDrawing e s)) = toasts s \<and>
   fileList (stopDrawing (startDrawing e s)) = fileList s \<and>
   chatMessages (stopDrawing (startDrawing e s)) = chatMessages s \<and>
   \<not> isDrawing (stopDrawing (startDrawing e s)) \<and>
   path (ctx (stopDrawing (startDrawing e s))) = []"
  by (simp add: stopDrawing_def startDrawing_def Let_def beginPath_def)

text \<open>A tap on the canvas after one segment was drawn: the segment stays, nothing is added.\<close>

theorem tap_renders_and_transmits_nothing_witness:
  "surface (stopDrawing (startDrawing (mouse_at 9 9)
     (stopDrawing (draw (mouse_at 5 5) (startDrawing (mouse_at 0 0) CollabConnect))))) =
     [\<lparr>paint_path = [[(0, 0), (5, 5)]], paint_composite = SourceOver,
       paint_style = ''#000000'', paint_width = 3\<rparr>] \<and>
   length (console (stopDrawing (startDrawing (mouse_at 9 9)
     (stopDrawing (draw (mouse_at 5 5) (startDrawing (mouse_at 0 0) CollabConnect)))))) = 1"
  using tap_renders_and_transmits_nothing
    [of "mouse_at 9 9"
        "stopDrawing (draw (mouse_at 5 5) (startDrawing (mouse_at 0 0) CollabConnect))"]
  by (simp add: stopDrawing_def first_segment_state)

subsection \<open>C10: the size limit of an upload\<close>

text \<open>
  C10. A file of more than \<open>10 * 1024 * 1024\<close> bytes is rejected: \<open>handleFileUpload\<close>
  shows the error toast and does nothing else, so the file list, \<open>sharedFiles\<close> and
  the console are as before. A file of at most that size is appended to the file list,
  stored in \<open>sharedFiles\<close> under its id and emitted as one \<open>file-share\<close> event. For
  a list of files, the file list and the console grow by the entries of exactly the
  files within the limit, in order, \<open>sharedFiles\<close> receives exactly those, and there
  is one toast per file, of type error or success.
\<close>

theorem upload_size_limit:
  "(file_size f > 10 * 1024 * 1024 \<longrightarrow>
      handleFileUpload [f] s = showToast ''File too large (max 10MB)'' ''error'' s \<and>
      fileList (handleFileUpload [f] s) = fileList s \<and>
      sharedFiles (handleFileUpload [f] s) = sharedFiles s \<and>
      console (handleFileUpload [f] s) = console s) \<and>
   (file_size f \<le> 10 * 1024 * 1024 \<longrightarrow>
      fileList (handleFileUpload [f] s) = fileList s @ [fileData_of f s] \<and>
      sharedFiles (handleFileUpload [f] s) =
        (sharedFiles s)(file_now_random f \<mapsto> fileData_of f s) \<and>
      console (handleFileUpload [f] s) =
        console s @ [SocketEmit (FileShare (fileData_of f s))]) \<and>
   fileList (handleFileUpload fs s) =
     fileList s @ map (\<lambda>g. fileData_of g s)
       (filter (\<lambda>g. file_size g \<le> 10 * 1024 * 1024) fs) \<and>
   sharedFiles (handleFileUpload fs s) =
     fold (\<lambda>g m. m(file_now_random g \<mapsto> fileData_of g s))
       (filter (\<lambda>g. file_size g \<le> 10 * 1024 * 1024) fs) (sharedFiles s) \<and>
   console (handleFileUpload fs s) =
     console s @ map (\<lambda>g. SocketEmit (FileShare (fileData_of g s)))
       (filter (\<lambda>g. file_size g \<le> 10 * 1024 * 1024) fs) \<and>
   toasts (handleFileUpload fs s) =
     toasts s @
       map (\<lambda>g. if file_size g > 10 * 1024 * 1024
                 then (''File too large (max 10MB)'', ''error'')
                 else (''File '' @ [CHR 0x22] @ file_name g @ [CHR 0x22] @ '' uploaded'',
                       ''success'')) fs"
proof (intro conjI impI)
  assume big: "file_size f > 10 * 1024 * 1024"
  show "handleFileUpload [f] s = showToast ''File too large (max 10MB)'' ''error'' s"
    using big by (simp add: handleFileUpload_Cons handleFileUpload_Nil handleFile_def)
  show "fileList (handleFileUpload [f] s) = fileList s"
    using big by (simp add: handleFileUpload_fileList)
  show "sharedFiles (handleFileUpload [f] s) = sharedFiles s"
    using big by (simp add: handleFileUpload_sharedFiles)
  show "console (handleFileUpload [f] s) = console s"
    using big by (simp add: handleFileUpload_console)
next
  assume ok: "file_size f \<le> 10 * 1024 * 1024"
  show "fileList (handleFileUpload [f] s) = fileList s @ [fileData_of f s]"
    using ok by (simp add: handleFileUpload_fileList)
  show "sharedFiles (handleFileUpload [f] s) =
        (sharedFiles s)(file_now_random f \<mapsto> fileData_of f s)"
    using ok by (simp add: handleFileUpload_sharedFiles)
  show "console (handleFileUpload [f] s) =
        console s @ [SocketEmit (FileShare (fileData_of f s))]"
    using ok by (simp add: handleFileUpload_console)
qed (rule handleFileUpload_fileList handleFileUpload_sharedFiles
      handleFileUpload_console handleFileUpload_toasts)+

text \<open>
  A file one byte above the limit and a file exactly at the limit, alone and together:
  the first leaves no trace but its toast, the second is listed, stored and emitted.
\<close>

theorem upload_size_limit_witness:
  "file_size too_large > 10 * 1024 * 1024 \<and>
   file_size at_limit \<le> 10 * 1024 * 1024 \<and>
   fileList (handleFileUpload [too_large] CollabConnect) = [] \<and>
   sharedFiles (handleFileUpload [too_large] CollabConnect) = Map.empty \<and>
   toasts (handleFileUpload [too_large] CollabConnect) =
     [(''File too large (max 10MB)'', ''error'')] \<and>
   fileList (handleFileUpload [at_limit] CollabConnect) = [fileData_of at_limit CollabConnect] \<and>
   sharedFiles (handleFileUpload [at_limit] CollabConnect) 1002 =
     Some (fileData_of at_limit CollabConnect) \<and>
   fileList (handleFileUpload [too_large, at_limit] CollabConnect) =
     [fileData_of at_limit CollabConnect] \<and>
   console (handleFileUpload [too_large, at_limit] CollabConnect) =
     [SocketEmit (FileShare (fileData_of at_limit CollabConnect))]"
proof -
  have big: "file_size too_large > 10 * 1024 * 1024"
    by (simp add: too_large_def)
  have ok: "file_size at_limit \<le> 10 * 1024 * 1024"
    by (simp add: at_limit_def)
  have i: "file_now_random at_limit = 1002"
    by (simp add: at_limit_def)
  have e: "fileList CollabConnect = []" "sharedFiles CollabConnect = Map.empty"
    "console CollabConnect = []" "toasts CollabConnect = []"
    by (simp_all add: CollabConnect_def)
  show ?thesis
    using big ok i e
      upload_size_limit [where f = too_large and s = CollabConnect
        and fs = "[too_large, at_limit]"]
      upload_size_limit [where f = at_limit and s = CollabConnect
        and fs = "[too_large]"]
    by (simp add: showToast_def)
qed

end
